theory Spec2Isabelle
  imports Main
begin

section \<open>Data model of \<open>mcp_local_client.py\<close>\<close>

text \<open>
  The client holds three fields that matter for its behaviour: the list \<open>available_tools\<close>,
  the list \<open>available_prompts\<close> and the dictionary \<open>sessions\<close>, which maps tool names,
  prompt names and resource URIs (one shared namespace) to the session that owns them.

  A session handle is an opaque object of the MCP library. It is always truthy in Python,
  so \<open>self.sessions.get(k)\<close> is falsy exactly when \<open>k\<close> is not a key. Handles are modelled
  as natural numbers. A string is a list of characters with code points below 256. JSON documents that the code only
  passes through (schemas, arguments, connection parameters) are kept as text.
\<close>

type_synonym session = nat
type_synonym json = string
type_synonym arguments = "(string \<times> json) list"
type_synonym server_config = "(string \<times> json) list"

text \<open>
  Exceptions are values. \<open>TypeError\<close> and \<open>AttributeError\<close> are the two that the client's own
  expressions can raise (\<open>"".join([None])\<close>, \<open>x.text\<close> on an object without that attribute);
  \<open>Raised msg\<close> is any exception of class \<open>Exception\<close> raised by a collaborator.
\<close>

datatype exn = TypeError | AttributeError | Raised string

subsection \<open>Python dictionaries\<close>

text \<open>
  A Python \<open>dict\<close> iterates in insertion order, and assigning to a key that is already
  present keeps the key's position and replaces its value. An association list with
  distinct keys, updated in place or extended at the end, behaves the same way.
\<close>

type_synonym 'v pydict = "(string \<times> 'v) list"

fun dict_setitem :: "'v pydict \<Rightarrow> string \<Rightarrow> 'v \<Rightarrow> 'v pydict" where
  "dict_setitem [] k v = [(k, v)]"
| "dict_setitem ((k', v') # d) k v =
     (if k' = k then (k', v) # d else (k', v') # dict_setitem d k v)"

fun dict_get :: "'v pydict \<Rightarrow> string \<Rightarrow> 'v option" where
  "dict_get [] k = None"
| "dict_get ((k', v') # d) k = (if k' = k then Some v' else dict_get d k)"

definition startswith :: "string \<Rightarrow> string \<Rightarrow> bool" where
  "startswith s p = (take (length p) s = p)"

fun str_join :: "string \<Rightarrow> string list \<Rightarrow> string" where
  "str_join sep [] = []"
| "str_join sep [x] = x"
| "str_join sep (x # y # ys) = x @ sep @ str_join sep (y # ys)"

subsection \<open>Values exchanged with the collaborators\<close>

text \<open>What \<open>session.list_tools()\<close> reports for one tool.\<close>

record mcp_tool =
  tool_name :: string
  tool_description :: "string option"
  tool_inputSchema :: "json pydict"

text \<open>The dictionary appended to \<open>available_tools\<close> (lines 48 to 59).\<close>

record tool_schema =
  schema_type :: string
  function_name :: string
  function_description :: "string option"
  parameters_type :: "json option"
  parameters_required :: "json option"
  function_properties :: "json option"

record mcp_prompt =
  pr_name :: string
  pr_description :: "string option"
  pr_arguments :: "string list option"

text \<open>
  A content object of a tool result or of a resource: a text content has a \<open>text\<close>
  attribute, every other kind (image, blob) has none.
\<close>

datatype content = TextContent string | NonTextContent

text \<open>
  The content of a prompt message, as \<open>execute_prompt\<close> distinguishes it: a \<open>str\<close>, an
  object with a \<open>text\<close> attribute, an iterable of items, or a value that is none of these.
  An item either has a \<open>text\<close> attribute or is rendered by \<open>str(item)\<close>.
\<close>

datatype item = TextItem string | OtherItem string

datatype prompt_content =
  PlainStr string | TextObject string | ItemSeq "item list" | NotIterable

record tool_call =
  call_name :: string
  call_arguments :: arguments

text \<open>The message of an \<open>ollama.chat\<close> response: both fields are optional.\<close>

record chat_response =
  message_content :: "string option"
  message_tool_calls :: "tool_call list option"

record message =
  role :: string
  content :: string

subsection \<open>Collaborators and observable effects\<close>

text \<open>
  The transport, the sessions and the model backend are external. Their answers are the
  parameters of the model: a record of functions from a call's arguments to its outcome,
  an exception or a value. A discovery or retrieval response that the code tests for
  truthiness is an \<open>option\<close>, with \<open>None\<close> for a falsy response.
\<close>

record env =
  connect :: "server_config \<Rightarrow> exn + session"
  list_tools :: "session \<Rightarrow> exn + mcp_tool list"
  list_prompts :: "session \<Rightarrow> exn + mcp_prompt list option"
  list_resources :: "session \<Rightarrow> exn + string list option"
  chat :: "tool_schema list \<Rightarrow> message list \<Rightarrow> exn + chat_response"
  call_tool :: "session \<Rightarrow> string \<Rightarrow> arguments \<Rightarrow> exn + content list"
  read_resource :: "session \<Rightarrow> string \<Rightarrow> exn + content list option"
  get_prompt :: "session \<Rightarrow> string \<Rightarrow> arguments \<Rightarrow> exn + prompt_content list option"

text \<open>
  Every call of \<open>console.print\<close> is recorded with the data it renders; the constructor names
  the source line.
\<close>

datatype console_msg =
    DiscoveryError exn                \<comment> \<open>line 79: \<open>Error {e}\<close>\<close>
  | ConnectError string exn           \<comment> \<open>line 82: \<open>Error connecting to {server_name}: {e}\<close>\<close>
  | AssistantText "string option"     \<comment> \<open>line 109: the response's content\<close>
  | ToolCallLine tool_call            \<comment> \<open>line 120: \<open>Tool Call: {tool.function}\<close>\<close>
  | ToolNotFound string               \<comment> \<open>line 123: \<open>Tool '{name}' not found.\<close>\<close>
  | ToolOutput "string list"          \<comment> \<open>line 131: \<open>Tool Output: {tool_output}\<close>\<close>
  | ResourceNotFound string           \<comment> \<open>line 153: \<open>Resource '{uri}' not found.\<close>\<close>
  | ResourceHeader string             \<comment> \<open>lines 159 and 160\<close>
  | ResourceText string               \<comment> \<open>line 161\<close>
  | NoContent                         \<comment> \<open>line 163: \<open>No content available.\<close>\<close>
  | ErrorLine exn                     \<comment> \<open>lines 165 and 207: \<open>Error: {e}\<close>\<close>
  | PromptNotFound string             \<comment> \<open>line 186: \<open>Prompt '{name}' not found.\<close>\<close>
  | ExecutingPrompt string            \<comment> \<open>line 204\<close>
  | Banner                            \<comment> \<open>lines 210 and 211\<close>
  | ChatLoopError exn                 \<comment> \<open>line 225\<close>

text \<open>The trace of a run: console output and calls of the collaborators, in order.\<close>

datatype event =
    Print console_msg
  | Connect server_config
  | ListTools session
  | ListPrompts session
  | ListResources session
  | Chat "tool_schema list" "message list"
  | CallTool session string arguments
  | ReadResource session string
  | GetPrompt session string arguments

record bot =
  available_tools :: "tool_schema list"
  available_prompts :: "mcp_prompt list"
  sessions :: "session pydict"

definition init_bot :: bot where
  "init_bot = \<lparr>available_tools = [], available_prompts = [], sessions = []\<rparr>"

section \<open>Registration: \<open>connect_to_server\<close>\<close>

text \<open>The dictionary built at lines 48 to 59.\<close>

definition adapt_tool :: "mcp_tool \<Rightarrow> tool_schema" where
  "adapt_tool tool =
     \<lparr>schema_type = ''function'',
      function_name = tool_name tool,
      function_description = tool_description tool,
      parameters_type = dict_get (tool_inputSchema tool) ''type'',
      parameters_required = dict_get (tool_inputSchema tool) ''required'',
      function_properties = dict_get (tool_inputSchema tool) ''properties''\<rparr>"

text \<open>The three \<open>for\<close> loops of lines 46, 64 and 74.\<close>

fun register_tools :: "session \<Rightarrow> mcp_tool list \<Rightarrow> bot \<Rightarrow> bot" where
  "register_tools session [] st = st"
| "register_tools session (tool # rest) st =
     register_tools session rest
       (st\<lparr>sessions := dict_setitem (sessions st) (tool_name tool) session,
           available_tools := available_tools st @ [adapt_tool tool]\<rparr>)"

fun register_prompts :: "session \<Rightarrow> mcp_prompt list \<Rightarrow> bot \<Rightarrow> bot" where
  "register_prompts session [] st = st"
| "register_prompts session (prompt # rest) st =
     register_prompts session rest
       (st\<lparr>sessions := dict_setitem (sessions st) (pr_name prompt) session,
           available_prompts := available_prompts st @ [prompt]\<rparr>)"

fun register_resources :: "session \<Rightarrow> string list \<Rightarrow> bot \<Rightarrow> bot" where
  "register_resources session [] st = st"
| "register_resources session (resource_uri # rest) st =
     register_resources session rest
       (st\<lparr>sessions := dict_setitem (sessions st) resource_uri session\<rparr>)"

text \<open>
  Lines 31 to 82. The outer \<open>try\<close> covers the connection, one inner \<open>try\<close> covers the three
  discovery calls together. An exception inside the inner block leaves what was registered
  before it and skips the rest of the block. The function never raises.
\<close>

definition connect_to_server ::
  "env \<Rightarrow> bot \<Rightarrow> string \<Rightarrow> server_config \<Rightarrow> bot \<times> event list" where
  "connect_to_server env st server_name server_config =
     (case connect env server_config of
        Inl e \<Rightarrow> (st, [Connect server_config, Print (ConnectError server_name e)])
      | Inr session \<Rightarrow>
          (case list_tools env session of
             Inl e \<Rightarrow>
               (st, [Connect server_config, ListTools session, Print (DiscoveryError e)])
           | Inr tools \<Rightarrow>
               (let st1 = register_tools session tools st in
                case list_prompts env session of
                  Inl e \<Rightarrow>
                    (st1, [Connect server_config, ListTools session, ListPrompts session,
                           Print (DiscoveryError e)])
                | Inr prompts_response \<Rightarrow>
                    (let st2 = (case prompts_response of
                                  None \<Rightarrow> st1
                                | Some prompts \<Rightarrow> register_prompts session prompts st1) in
                     case list_resources env session of
                       Inl e \<Rightarrow>
                         (st2, [Connect server_config, ListTools session, ListPrompts session,
                                ListResources session, Print (DiscoveryError e)])
                     | Inr resources_response \<Rightarrow>
                         ((case resources_response of
                             None \<Rightarrow> st2
                           | Some resources \<Rightarrow> register_resources session resources st2),
                          [Connect server_config, ListTools session, ListPrompts session,
                           ListResources session])))))"

text \<open>
  The keys that one registration writes: the discovery of session \<open>s\<close> reaches a
  capability with key \<open>k\<close> when \<open>k\<close> names a listed tool, or, the tools listed, a listed
  prompt, or, tools and prompts listed, \<open>k\<close> is a listed resource URI.
\<close>

definition discovers :: "env \<Rightarrow> session \<Rightarrow> string \<Rightarrow> bool" where
  "discovers env s k =
     (case list_tools env s of
        Inl e \<Rightarrow> False
      | Inr tools \<Rightarrow>
          k \<in> tool_name ` set tools \<or>
          (case list_prompts env s of
             Inl e \<Rightarrow> False
           | Inr prompts_response \<Rightarrow>
               k \<in> pr_name ` set (case prompts_response of None \<Rightarrow> [] | Some ps \<Rightarrow> ps) \<or>
               (case list_resources env s of
                  Inl e \<Rightarrow> False
                | Inr None \<Rightarrow> False
                | Inr (Some resources) \<Rightarrow> k \<in> set resources)))"

section \<open>The dispatch loop: \<open>process_query\<close>\<close>

text \<open>
  \<open>"".join(assistant_content)\<close> at line 116, where \<open>assistant_content\<close> is the one-element
  list holding the response's content: the content itself when it is a string, a
  \<open>TypeError\<close> when it is \<open>None\<close>.
\<close>

definition join_assistant_content :: "string option \<Rightarrow> exn + string" where
  "join_assistant_content c = (case c of None \<Rightarrow> Inl TypeError | Some s \<Rightarrow> Inr s)"

text \<open>Lines 128 to 130: \<open>content.text\<close> of every content object of the tool result.\<close>

fun tool_texts :: "content list \<Rightarrow> exn + string list" where
  "tool_texts [] = Inr []"
| "tool_texts (TextContent t # rest) =
     (case tool_texts rest of Inl e \<Rightarrow> Inl e | Inr ts \<Rightarrow> Inr (t # ts))"
| "tool_texts (NonTextContent # rest) = Inl AttributeError"

text \<open>
  The \<open>for\<close> loop of lines 112 to 136 over the tool calls that remain, with the loop's
  variables \<open>messages\<close> and \<open>has_tool_use\<close> passed along. The result is the exception that
  left the loop, or the two variables at its end, together with the events of the loop.
  The \<open>break\<close> of line 124 ends the loop with the calls that remain untouched.
\<close>

fun for_tool_calls ::
  "env \<Rightarrow> bot \<Rightarrow> string option \<Rightarrow> tool_call list \<Rightarrow> message list \<Rightarrow> bool \<Rightarrow>
   (exn + message list \<times> bool) \<times> event list" where
  "for_tool_calls env st c [] messages has_tool_use = (Inr (messages, has_tool_use), [])"
| "for_tool_calls env st c (tool # rest) messages has_tool_use =
     (case join_assistant_content c of
        Inl e \<Rightarrow> (Inl e, [])
      | Inr text \<Rightarrow>
          (let messages1 = messages @ [\<lparr>role = ''assistant'', content = text\<rparr>] in
           case dict_get (sessions st) (call_name tool) of
             None \<Rightarrow>
               (Inr (messages1, True),
                [Print (ToolCallLine tool), Print (ToolNotFound (call_name tool))])
           | Some session \<Rightarrow>
               (case call_tool env session (call_name tool) (call_arguments tool) of
                  Inl e \<Rightarrow>
                    (Inl e,
                     [Print (ToolCallLine tool),
                      CallTool session (call_name tool) (call_arguments tool)])
                | Inr result \<Rightarrow>
                    (case tool_texts result of
                       Inl e \<Rightarrow>
                         (Inl e,
                          [Print (ToolCallLine tool),
                           CallTool session (call_name tool) (call_arguments tool)])
                     | Inr tool_output \<Rightarrow>
                         (let messages2 =
                                messages1 @ [\<lparr>role = ''tool'', content = concat tool_output\<rparr>];
                              (r, tr) = for_tool_calls env st c rest messages2 True
                          in (r,
                              [Print (ToolCallLine tool),
                               CallTool session (call_name tool) (call_arguments tool),
                               Print (ToolOutput tool_output)] @ tr))))))"

text \<open>
  One pass through the body of \<open>while True\<close>, lines 100 to 136: the call of the backend,
  the print of the content, the loop over \<open>response.message.tool_calls or []\<close>.
\<close>

definition model_turn ::
  "env \<Rightarrow> bot \<Rightarrow> message list \<Rightarrow> (exn + message list \<times> bool) \<times> event list" where
  "model_turn env st messages =
     (case chat env (available_tools st) messages of
        Inl e \<Rightarrow> (Inl e, [Chat (available_tools st) messages])
      | Inr response \<Rightarrow>
          (let (r, tr) =
                 for_tool_calls env st (message_content response)
                   (case message_tool_calls response of None \<Rightarrow> [] | Some calls \<Rightarrow> calls)
                   messages False
           in (r, [Chat (available_tools st) messages,
                   Print (AssistantText (message_content response))] @ tr)))"

text \<open>
  The \<open>while True\<close> loop. It ends when a pass leaves \<open>has_tool_use\<close> false or raises, and
  nothing bounds the number of passes, so the loop is a partial function: \<open>None\<close> is a run
  that never returns. A finished run gives the exception raised or the final transcript,
  and the trace.
\<close>

partial_function (option) while_true ::
  "env \<Rightarrow> bot \<Rightarrow> message list \<Rightarrow> event list \<Rightarrow> ((exn + message list) \<times> event list) option"
  where
  "while_true env st messages tr =
     (case model_turn env st messages of
        (Inl e, tr1) \<Rightarrow> Some (Inl e, tr @ tr1)
      | (Inr (messages', has_tool_use), tr1) \<Rightarrow>
          (if \<not> has_tool_use then Some (Inr messages', tr @ tr1)
           else while_true env st messages' (tr @ tr1)))"

definition process_query ::
  "env \<Rightarrow> bot \<Rightarrow> string \<Rightarrow> ((exn + message list) \<times> event list) option" where
  "process_query env st query = while_true env st [\<lparr>role = ''user'', content = query\<rparr>] []"

section \<open>Resources and prompts\<close>

text \<open>The scan of lines 147 to 150: the session of the first key that starts with the prefix.\<close>

fun papers_fallback :: "session pydict \<Rightarrow> session option" where
  "papers_fallback [] = None"
| "papers_fallback ((uri, sess) # rest) =
     (if startswith uri ''papers://'' then Some sess else papers_fallback rest)"

text \<open>
  Lines 156 to 165, the \<open>try\<close> block that reads the resource through the resolved
  session and prints the text of its first content object.
\<close>

definition read_and_print :: "env \<Rightarrow> session \<Rightarrow> string \<Rightarrow> event list" where
  "read_and_print env session resource_uri =
     ReadResource session resource_uri #
     (case read_resource env session resource_uri of
        Inl e \<Rightarrow> [Print (ErrorLine e)]
      | Inr None \<Rightarrow> [Print NoContent]
      | Inr (Some []) \<Rightarrow> [Print NoContent]
      | Inr (Some (TextContent t # _)) \<Rightarrow>
          [Print (ResourceHeader resource_uri), Print (ResourceText t)]
      | Inr (Some (NonTextContent # _)) \<Rightarrow>
          [Print (ResourceHeader resource_uri), Print (ErrorLine AttributeError)])"

text \<open>Lines 142 to 165. The function prints and returns nothing; its value is its trace.\<close>

definition get_resource :: "env \<Rightarrow> bot \<Rightarrow> string \<Rightarrow> event list" where
  "get_resource env st resource_uri =
     (let session0 = dict_get (sessions st) resource_uri;
          session1 = (if session0 = None \<and> startswith resource_uri ''papers://''
                      then papers_fallback (sessions st) else session0)
      in case session1 of
           None \<Rightarrow> [Print (ResourceNotFound resource_uri)]
         | Some session \<Rightarrow> read_and_print env session resource_uri)"

text \<open>Lines 195 to 202: the text of a prompt message's content.\<close>

fun item_text :: "item \<Rightarrow> string" where
  "item_text (TextItem t) = t"
| "item_text (OtherItem s) = s"

fun extract_text :: "prompt_content \<Rightarrow> exn + string" where
  "extract_text (PlainStr s) = Inr s"
| "extract_text (TextObject t) = Inr t"
| "extract_text (ItemSeq items) = Inr (str_join '' '' (map item_text items))"
| "extract_text NotIterable = Inl TypeError"

text \<open>
  Lines 182 to 207. Everything after the lookup is inside one \<open>try\<close>, so an exception of
  the retrieval, of the extraction or of \<open>process_query\<close> is printed at line 207.
\<close>

definition execute_prompt ::
  "env \<Rightarrow> bot \<Rightarrow> string \<Rightarrow> arguments \<Rightarrow> event list option" where
  "execute_prompt env st prompt_name args =
     (case dict_get (sessions st) prompt_name of
        None \<Rightarrow> Some [Print (PromptNotFound prompt_name)]
      | Some session \<Rightarrow>
          (case get_prompt env session prompt_name args of
             Inl e \<Rightarrow> Some [GetPrompt session prompt_name args, Print (ErrorLine e)]
           | Inr None \<Rightarrow> Some [GetPrompt session prompt_name args]
           | Inr (Some []) \<Rightarrow> Some [GetPrompt session prompt_name args]
           | Inr (Some (prompt_content # _)) \<Rightarrow>
               (case extract_text prompt_content of
                  Inl e \<Rightarrow> Some [GetPrompt session prompt_name args, Print (ErrorLine e)]
                | Inr text \<Rightarrow>
                    (case process_query env st text of
                       None \<Rightarrow> None
                     | Some (Inl e, tr) \<Rightarrow>
                         Some ([GetPrompt session prompt_name args,
                                Print (ExecutingPrompt prompt_name)] @ tr @
                               [Print (ErrorLine e)])
                     | Some (Inr _, tr) \<Rightarrow>
                         Some ([GetPrompt session prompt_name args,
                                Print (ExecutingPrompt prompt_name)] @ tr)))))"

section \<open>The interactive loop: \<open>chat_loop\<close>\<close>

text \<open>
  \<open>str.strip\<close> and \<open>str.lower\<close> on code points below 256. Python's whitespace there
  is 9 to 13, 28 to 32, 133 and 160; its upper-case letters are \<open>A\<close> to \<open>Z\<close> and 192 to
  222 without 215, each 32 below its lower-case letter.
\<close>

definition is_space :: "char \<Rightarrow> bool" where
  "is_space ch = (of_char ch \<in> {9 .. 13 :: nat} \<union> {28 .. 32} \<union> {133, 160})"

definition strip :: "string \<Rightarrow> string" where
  "strip s = rev (dropWhile is_space (rev (dropWhile is_space s)))"

definition lower_char :: "char \<Rightarrow> char" where
  "lower_char ch =
     (case map_of (zip ''ABCDEFGHIJKLMNOPQRSTUVWXYZ'' ''abcdefghijklmnopqrstuvwxyz'') ch of
        Some l \<Rightarrow> l
      | None \<Rightarrow>
          (if 192 \<le> (of_char ch :: nat) \<and> (of_char ch :: nat) \<le> 222
              \<and> (of_char ch :: nat) \<noteq> 215
           then char_of (of_char ch + 32 :: nat) else ch))"

definition lower :: "string \<Rightarrow> string" where
  "lower s = map lower_char s"

datatype loop_status = Quit | AwaitingInput

text \<open>
  Lines 213 to 225 over the lines typed so far. The loop leaves on \<open>quit\<close>; with every line
  consumed it is waiting in \<open>input\<close>. An exception of \<open>process_query\<close> is printed at line
  225 and the loop reads the next line. A failing \<open>input\<close> (end of
  input) is outside the model: every element of the list is a line that was read.
\<close>

fun chat_lines :: "env \<Rightarrow> bot \<Rightarrow> string list \<Rightarrow> (loop_status \<times> event list) option" where
  "chat_lines env st [] = Some (AwaitingInput, [])"
| "chat_lines env st (line # rest) =
     (let query = strip line in
      if query = [] then chat_lines env st rest
      else if lower query = ''quit'' then Some (Quit, [])
      else (case process_query env st query of
              None \<Rightarrow> None
            | Some (r, tr) \<Rightarrow>
                (case chat_lines env st rest of
                   None \<Rightarrow> None
                 | Some (status, tr') \<Rightarrow>
                     Some (status,
                           tr @ (case r of Inl e \<Rightarrow> [Print (ChatLoopError e)] | Inr _ \<Rightarrow> [])
                              @ tr'))))"

definition chat_loop :: "env \<Rightarrow> bot \<Rightarrow> string list \<Rightarrow> (loop_status \<times> event list) option" where
  "chat_loop env st lines =
     (case chat_lines env st lines of
        None \<Rightarrow> None
      | Some (status, tr) \<Rightarrow> Some (status, Print Banner # tr))"

section \<open>Concrete collaborators\<close>

text \<open>
  A collaborator set in which no server answers the connection, every discovery is empty
  and the backend replies with empty text and no tool call. The concrete scenarios below
  change the fields they need.
\<close>

definition quiet_env :: env where
  "quiet_env =
     \<lparr>connect = (\<lambda>cfg. Inl (Raised ''no server'')),
      list_tools = (\<lambda>s. Inr []),
      list_prompts = (\<lambda>s. Inr None),
      list_resources = (\<lambda>s. Inr None),
      chat = (\<lambda>tools msgs. Inr \<lparr>message_content = Some [], message_tool_calls = None\<rparr>),
      call_tool = (\<lambda>s n a. Inr []),
      read_resource = (\<lambda>s u. Inr None),
      get_prompt = (\<lambda>s n a. Inr None)\<rparr>"

text \<open>
  Two servers: the configuration \<open>[(''id'', ''1'')]\<close> yields session 1, which lists a tool
  named \<open>x\<close>; any other configuration yields session 2, which lists a prompt named \<open>x\<close>.
\<close>

definition two_servers_env :: env where
  "two_servers_env =
     quiet_env
       \<lparr>connect := (\<lambda>cfg. if cfg = [(''id'', ''1'')] then Inr 1 else Inr 2),
        list_tools := (\<lambda>s. if s = 1
           then Inr [\<lparr>tool_name = ''x'', tool_description = None, tool_inputSchema = []\<rparr>]
           else Inr []),
        list_prompts := (\<lambda>s. if s = 1 then Inr None
           else Inr (Some [\<lparr>pr_name = ''x'', pr_description = None, pr_arguments = None\<rparr>]))\<rparr>"

text \<open>
  One server whose tool discovery raises, while its prompt and resource discoveries
  would answer.
\<close>

definition tools_fail_env :: env where
  "tools_fail_env =
     quiet_env
       \<lparr>connect := (\<lambda>cfg. Inr 1),
        list_tools := (\<lambda>s. Inl (Raised ''tools failed'')),
        list_prompts := (\<lambda>s. Inr (Some [\<lparr>pr_name = ''summarize'', pr_description = None,
                                          pr_arguments = None\<rparr>])),
        list_resources := (\<lambda>s. Inr (Some [''papers://folders'']))\<rparr>"

text \<open>Registries for the resource and prompt scenarios.\<close>

definition papers_bot :: bot where
  "papers_bot =
     \<lparr>available_tools = [], available_prompts = [],
      sessions = [(''search_papers'', 1), (''papers://456'', 2), (''papers://folders'', 3)]\<rparr>"

definition notes_bot :: bot where
  "notes_bot =
     \<lparr>available_tools = [], available_prompts = [],
      sessions = [(''papers://456'', 2), (''notes://1'', 3)]\<rparr>"

definition prompt_bot :: bot where
  "prompt_bot =
     \<lparr>available_tools = [], available_prompts = [],
      sessions = [(''summarize'', 1)]\<rparr>"

section \<open>Measures on traces and transcripts\<close>

text \<open>
  The number of backend invocations in a trace and the number of turns with role
  \<open>assistant\<close> in a transcript.
\<close>

fun backend_calls :: "event list \<Rightarrow> nat" where
  "backend_calls [] = 0"
| "backend_calls (Chat tools msgs # tr) = Suc (backend_calls tr)"
| "backend_calls (e # tr) = backend_calls tr"

fun assistant_turns :: "message list \<Rightarrow> nat" where
  "assistant_turns [] = 0"
| "assistant_turns (m # ms) =
     (if role m = ''assistant'' then Suc (assistant_turns ms) else assistant_turns ms)"

section \<open>Concrete dispatch scenarios\<close>

text \<open>
  One server with a tool \<open>add\<close>. For a transcript of one turn the backend asks for the
  calls given, afterwards it answers \<open>5\<close> with no call; the tool returns the text \<open>5\<close>.
\<close>

definition add_bot :: bot where
  "add_bot = \<lparr>available_tools = [], available_prompts = [], sessions = [(''add'', 1)]\<rparr>"

definition add_call :: tool_call where
  "add_call = \<lparr>call_name = ''add'', call_arguments = [(''a'', ''2''), (''b'', ''3'')]\<rparr>"

definition missing_call :: tool_call where
  "missing_call = \<lparr>call_name = ''multiply'', call_arguments = []\<rparr>"

definition calls_env :: "tool_call list \<Rightarrow> env" where
  "calls_env calls =
     quiet_env
       \<lparr>chat := (\<lambda>tools msgs.
            if length msgs = 1
            then Inr \<lparr>message_content = Some [], message_tool_calls = Some calls\<rparr>
            else Inr \<lparr>message_content = Some ''5'', message_tool_calls = None\<rparr>),
        call_tool := (\<lambda>s n a. Inr [TextContent ''5''])\<rparr>"

text \<open>The same backend with a tool whose invocation raises.\<close>

definition raising_env :: env where
  "raising_env = (calls_env [add_call]) \<lparr>call_tool := (\<lambda>s n a. Inl (Raised ''tool crashed''))\<rparr>"

text \<open>A session whose prompt is one message with the given content.\<close>

definition prompt_env :: "prompt_content \<Rightarrow> env" where
  "prompt_env first = quiet_env \<lparr>get_prompt := (\<lambda>s n a. Inr (Some [first]))\<rparr>"

definition user_turn :: "string \<Rightarrow> message" where
  "user_turn query = \<lparr>role = ''user'', content = query\<rparr>"

text \<open>
  The tool calls that the \<open>for\<close> loop of one pass reaches when no invocation raises:
  all calls up to and including the first whose name is not a key of the registry.
\<close>

fun reached_calls :: "bot \<Rightarrow> tool_call list \<Rightarrow> tool_call list" where
  "reached_calls st [] = []"
| "reached_calls st (c # cs) =
     (if dict_get (sessions st) (call_name c) = None then [c] else c # reached_calls st cs)"

text \<open>
  Two servers that both list the resource \<open>papers://x\<close>; the tool discovery of the
  second one raises.
\<close>

definition shadow_env :: env where
  "shadow_env =
     quiet_env
       \<lparr>connect := (\<lambda>cfg. if cfg = [(''id'', ''1'')] then Inr 1 else Inr 2),
        list_tools := (\<lambda>s. if s = 1 then Inr [] else Inl (Raised ''tools failed'')),
        list_resources := (\<lambda>s. Inr (Some [''papers://x'']))\<rparr>"


text \<open>
  A registry with a second tool \<open>boom\<close> whose invocation raises, asked for after
  \<open>add\<close> in one batch.
\<close>

definition boom_bot :: bot where
  "boom_bot =
     \<lparr>available_tools = [], available_prompts = [], sessions = [(''add'', 1), (''boom'', 2)]\<rparr>"

definition boom_call :: tool_call where
  "boom_call = \<lparr>call_name = ''boom'', call_arguments = []\<rparr>"

definition boom_env :: env where
  "boom_env =
     (calls_env [add_call, boom_call])
       \<lparr>call_tool := (\<lambda>s n a. if n = ''boom'' then Inl (Raised ''tool crashed'')
                                else Inr [TextContent ''5''])\<rparr>"

section \<open>The registry\<close>

lemma dict_get_setitem:
  "dict_get (dict_setitem d k v) k' = (if k' = k then Some v else dict_get d k')"
  by (induction d) auto

lemma sessions_register_tools:
  "dict_get (sessions (register_tools s ts st)) k =
     (if k \<in> tool_name ` set ts then Some s else dict_get (sessions st) k)"
  by (induction ts arbitrary: st) (auto simp: dict_get_setitem)

lemma sessions_register_prompts:
  "dict_get (sessions (register_prompts s ps st)) k =
     (if k \<in> pr_name ` set ps then Some s else dict_get (sessions st) k)"
  by (induction ps arbitrary: st) (auto simp: dict_get_setitem)

lemma sessions_register_resources:
  "dict_get (sessions (register_resources s rs st)) k =
     (if k \<in> set rs then Some s else dict_get (sessions st) k)"
  by (induction rs arbitrary: st) (auto simp: dict_get_setitem)

lemma connect_to_server_lookup:
  assumes "connect env cfg = Inr s" and "discovers env s k"
  shows "dict_get (sessions (fst (connect_to_server env st nm cfg))) k = Some s"
  using assms
  by (auto simp: connect_to_server_def discovers_def Let_def sessions_register_tools
      sessions_register_prompts sessions_register_resources
      split: sum.splits option.splits)

lemma connect_to_server_trace_indep:
  "snd (connect_to_server env st nm cfg) = snd (connect_to_server env st' nm cfg)"
  by (auto simp: connect_to_server_def Let_def split: sum.splits option.splits)


text \<open>
  C3, as stated, fails for prompt names and resource URIs. Both servers list the
  resource \<open>papers://x\<close>, but the tool discovery of the second raises inside the one
  \<open>try\<close> of lines 43 to 79, so its resources are never asked for: after both
  registrations the key still leads to the first session.
\<close>

theorem later_session_shadowed_counterexample:
  "connect shadow_env [(''id'', ''1'')] = Inr 1
   \<and> connect shadow_env [(''id'', ''2'')] = Inr 2
   \<and> list_resources shadow_env 1 = Inr (Some [''papers://x''])
   \<and> list_resources shadow_env 2 = Inr (Some [''papers://x''])
   \<and> dict_get (sessions (fst (connect_to_server shadow_env
        (fst (connect_to_server shadow_env init_bot ''a'' [(''id'', ''1'')]))
        ''b'' [(''id'', ''2'')]))) ''papers://x'' = Some 1"
  by (simp add: shadow_env_def quiet_env_def connect_to_server_def init_bot_def)

text \<open>
  C3, amended. Two sessions \<open>sa\<close> and \<open>sb\<close> are connected. Whenever the discovery of the
  session registered later reaches a capability with key \<open>k\<close> (its tool listing answers
  for a tool name, its tool and prompt listings answer for a prompt name, all three
  answer for a resource URI), the lookup of \<open>k\<close> after both registrations gives that
  later session, whatever the earlier registration wrote, in either order. The trace of
  the later registration is the one it has on an empty registry, so the collision is
  neither detected nor reported.
\<close>

theorem last_registered_wins:
  assumes "connect env ca = Inr sa" and "connect env cb = Inr sb"
  shows "(discovers env sb k \<longrightarrow>
            dict_get (sessions (fst (connect_to_server env
                (fst (connect_to_server env st na ca)) nb cb))) k = Some sb
            \<and> snd (connect_to_server env (fst (connect_to_server env st na ca)) nb cb)
                = snd (connect_to_server env init_bot nb cb))
       \<and> (discovers env sa k \<longrightarrow>
            dict_get (sessions (fst (connect_to_server env
                (fst (connect_to_server env st nb cb)) na ca))) k = Some sa
            \<and> snd (connect_to_server env (fst (connect_to_server env st nb cb)) na ca)
                = snd (connect_to_server env init_bot na ca))"
  using assms connect_to_server_lookup connect_to_server_trace_indep by metis

theorem last_registered_wins_witness:
  "connect two_servers_env [(''id'', ''1'')] = Inr 1
   \<and> connect two_servers_env [(''id'', ''2'')] = Inr 2
   \<and> discovers two_servers_env 1 ''x'' \<and> discovers two_servers_env 2 ''x''
   \<and> dict_get (sessions (fst (connect_to_server two_servers_env
        (fst (connect_to_server two_servers_env init_bot ''a'' [(''id'', ''1'')]))
        ''b'' [(''id'', ''2'')]))) ''x'' = Some 2
   \<and> dict_get (sessions (fst (connect_to_server two_servers_env
        (fst (connect_to_server two_servers_env init_bot ''b'' [(''id'', ''2'')]))
        ''a'' [(''id'', ''1'')]))) ''x'' = Some 1"
proof -
  have a: "connect two_servers_env [(''id'', ''1'')] = Inr 1"
    by (simp add: two_servers_env_def quiet_env_def)
  have b: "connect two_servers_env [(''id'', ''2'')] = Inr 2"
    by (simp add: two_servers_env_def quiet_env_def)
  have da: "discovers two_servers_env 1 ''x''"
    by (simp add: discovers_def two_servers_env_def quiet_env_def)
  have db: "discovers two_servers_env 2 ''x''"
    by (simp add: discovers_def two_servers_env_def quiet_env_def)
  show ?thesis
    using a b da db last_registered_wins [OF a b, of "''x''" init_bot "''a''" "''b''"] by simp
qed


section \<open>Registration failures\<close>

text \<open>
  C4, as stated, fails: the three discoveries share the \<open>try\<close> of line 43, so an
  exception of \<open>list_tools\<close> is reported and neither the prompts nor the resources of
  that session are asked for, although both would answer here.
\<close>

theorem discovery_failure_blocks_counterexample:
  "connect_to_server tools_fail_env init_bot ''research'' [] =
     (init_bot, [Connect [], ListTools 1, Print (DiscoveryError (Raised ''tools failed''))])"
  by (simp add: connect_to_server_def tools_fail_env_def quiet_env_def)

text \<open>
  C4, amended. For a connected session the classes are discovered in the order tools,
  prompts, resources. A failure of one class is reported once, the classes after it are not
  attempted, what the classes before it registered stays registered, and
  \<open>connect_to_server\<close> returns normally.
\<close>

theorem discovery_failure_skips_later_classes:
  assumes "connect env cfg = Inr s"
  shows "(list_tools env s = Inl e \<longrightarrow>
            connect_to_server env st nm cfg =
              (st, [Connect cfg, ListTools s, Print (DiscoveryError e)]))
       \<and> (list_tools env s = Inr tools \<and> list_prompts env s = Inl e \<longrightarrow>
            connect_to_server env st nm cfg =
              (register_tools s tools st,
               [Connect cfg, ListTools s, ListPrompts s, Print (DiscoveryError e)]))
       \<and> (list_tools env s = Inr tools \<and> list_prompts env s = Inr pr
            \<and> list_resources env s = Inl e \<longrightarrow>
            connect_to_server env st nm cfg =
              ((case pr of None \<Rightarrow> register_tools s tools st
                | Some prompts \<Rightarrow> register_prompts s prompts (register_tools s tools st)),
               [Connect cfg, ListTools s, ListPrompts s, ListResources s,
                Print (DiscoveryError e)]))"
  using assms by (simp add: connect_to_server_def Let_def)

theorem discovery_failure_skips_later_classes_witness:
  "connect tools_fail_env [] = Inr 1
   \<and> list_tools tools_fail_env 1 = Inl (Raised ''tools failed'')
   \<and> connect_to_server tools_fail_env init_bot ''research'' [] =
       (init_bot, [Connect [], ListTools 1, Print (DiscoveryError (Raised ''tools failed''))])"
proof -
  have c: "connect tools_fail_env [] = Inr 1"
    by (simp add: tools_fail_env_def quiet_env_def)
  have t: "list_tools tools_fail_env 1 = Inl (Raised ''tools failed'')"
    by (simp add: tools_fail_env_def quiet_env_def)
  show ?thesis
    using c t discovery_failure_skips_later_classes
      [OF c, of "Raised ''tools failed''" init_bot "''research''"]
    by simp
qed

section \<open>Resolving resources\<close>

lemma papers_fallback_first:
  "\<forall>(k, s) \<in> set pre. \<not> startswith k ''papers://'' \<Longrightarrow> startswith k0 ''papers://'' \<Longrightarrow>
   papers_fallback (pre @ (k0, s0) # post) = Some s0"
  by (induction pre) auto

lemma papers_fallback_none:
  "\<forall>(k, s) \<in> set d. \<not> startswith k ''papers://'' \<Longrightarrow> papers_fallback d = None"
  by (induction d) auto

text \<open>
  C7. The requested URI is not a key of the registry. If it starts with \<open>papers://\<close> and
  the registry, in iteration order, is \<open>pre @ (k0, s0) # post\<close> with \<open>k0\<close> the first key
  that starts with \<open>papers://\<close>, the resource is read through \<open>s0\<close>: the first event is the
  read of the requested URI on \<open>s0\<close>. If no key starts with the prefix, the only event is
  the not-found message, so no session is used.
\<close>

theorem get_resource_prefix_fallback:
  assumes "dict_get (sessions st) resource_uri = None"
  shows "(startswith resource_uri ''papers://''
          \<and> sessions st = pre @ (k0, s0) # post
          \<and> (\<forall>(k, s) \<in> set pre. \<not> startswith k ''papers://'')
          \<and> startswith k0 ''papers://'' \<longrightarrow>
            get_resource env st resource_uri = read_and_print env s0 resource_uri
            \<and> hd (get_resource env st resource_uri) = ReadResource s0 resource_uri)
       \<and> ((\<forall>(k, s) \<in> set (sessions st). \<not> startswith k ''papers://'') \<longrightarrow>
            get_resource env st resource_uri = [Print (ResourceNotFound resource_uri)])"
  using assms
  by (auto simp: get_resource_def Let_def papers_fallback_first papers_fallback_none
      read_and_print_def)

theorem get_resource_prefix_fallback_witness:
  "dict_get (sessions papers_bot) ''papers://123'' = None
   \<and> startswith ''papers://123'' ''papers://''
   \<and> get_resource quiet_env papers_bot ''papers://123''
       = [ReadResource 2 ''papers://123'', Print NoContent]
   \<and> dict_get (sessions init_bot) ''papers://123'' = None
   \<and> get_resource quiet_env init_bot ''papers://123''
       = [Print (ResourceNotFound ''papers://123'')]"
proof -
  have a: "dict_get (sessions papers_bot) ''papers://123'' = None"
    by (simp add: papers_bot_def)
  have b: "dict_get (sessions init_bot) ''papers://123'' = None"
    by (simp add: init_bot_def)
  have s: "sessions papers_bot =
             [(''search_papers'', 1)] @ (''papers://456'', 2) # [(''papers://folders'', 3)]"
    by (simp add: papers_bot_def)
  show ?thesis
    using a b s
      get_resource_prefix_fallback [OF a, of "[(''search_papers'', 1)]" "''papers://456''" 2
        "[(''papers://folders'', 3)]" quiet_env]
      get_resource_prefix_fallback [OF b, of "[]" "''''" 0 "[]" quiet_env]
    by (simp add: startswith_def read_and_print_def quiet_env_def init_bot_def)
qed

text \<open>
  C9. For a URI that is not a key and does not start with \<open>papers://\<close> the registry is not
  scanned: whatever keys it holds, also keys with the URI's own scheme or with the
  \<open>papers://\<close> prefix, the only event is the not-found message.
\<close>

theorem fallback_only_for_papers:
  assumes "dict_get (sessions st) resource_uri = None"
    and "\<not> startswith resource_uri ''papers://''"
  shows "get_resource env st resource_uri = [Print (ResourceNotFound resource_uri)]"
  using assms by (simp add: get_resource_def)

theorem fallback_only_for_papers_witness:
  "dict_get (sessions notes_bot) ''notes://2'' = None
   \<and> \<not> startswith ''notes://2'' ''papers://''
   \<and> get_resource quiet_env notes_bot ''notes://2'' = [Print (ResourceNotFound ''notes://2'')]"
proof -
  have a: "dict_get (sessions notes_bot) ''notes://2'' = None"
    by (simp add: notes_bot_def)
  have b: "\<not> startswith ''notes://2'' ''papers://''"
    by (simp add: startswith_def)
  show ?thesis using a b fallback_only_for_papers [OF a b, of quiet_env] by simp
qed

section \<open>Executing prompts\<close>

text \<open>
  C10. The prompt name resolves and the retrieval returns a falsy result or a result
  with no messages. Then \<open>execute_prompt\<close> returns with the retrieval as its only event:
  the dispatch loop is not entered and nothing is printed.
\<close>

theorem execute_prompt_no_messages:
  assumes "dict_get (sessions st) prompt_name = Some session"
    and "get_prompt env session prompt_name args = Inr None
         \<or> get_prompt env session prompt_name args = Inr (Some [])"
  shows "execute_prompt env st prompt_name args = Some [GetPrompt session prompt_name args]"
  using assms by (auto simp: execute_prompt_def)

theorem execute_prompt_no_messages_witness:
  "dict_get (sessions prompt_bot) ''summarize'' = Some 1
   \<and> get_prompt quiet_env 1 ''summarize'' [] = Inr None
   \<and> execute_prompt quiet_env prompt_bot ''summarize'' [] = Some [GetPrompt 1 ''summarize'' []]"
proof -
  have a: "dict_get (sessions prompt_bot) ''summarize'' = Some 1"
    by (simp add: prompt_bot_def)
  have b: "get_prompt quiet_env 1 ''summarize'' [] = Inr None"
    by (simp add: quiet_env_def)
  show ?thesis
    using a b execute_prompt_no_messages [OF a, of quiet_env "[]"] by simp
qed

section \<open>The dispatch loop\<close>

lemma while_true_raise:
  "model_turn env st messages = (Inl e, tr1) \<Longrightarrow>
   while_true env st messages tr = Some (Inl e, tr @ tr1)"
  by (subst while_true.simps) simp

lemma while_true_stop:
  "model_turn env st messages = (Inr (messages', False), tr1) \<Longrightarrow>
   while_true env st messages tr = Some (Inr messages', tr @ tr1)"
  by (subst while_true.simps) simp

lemma while_true_continue:
  "model_turn env st messages = (Inr (messages', True), tr1) \<Longrightarrow>
   while_true env st messages tr = while_true env st messages' (tr @ tr1)"
  by (subst while_true.simps) simp

lemma model_turn_no_calls:
  assumes "chat env (available_tools st) messages = Inr response"
    and "message_tool_calls response = None \<or> message_tool_calls response = Some []"
  shows "model_turn env st messages =
           (Inr (messages, False),
            [Chat (available_tools st) messages, Print (AssistantText (message_content response))])"
  using assms by (auto simp: model_turn_def)


lemma model_turn_starts_with_chat:
  "\<exists>r tr2. model_turn env st messages = (r, Chat (available_tools st) messages # tr2)"
  by (auto simp: model_turn_def split: sum.splits prod.splits)



section \<open>Batches of tool calls\<close>

lemma tool_texts_text: "tool_texts (map TextContent texts) = Inr texts"
  by (induction texts) auto

lemma str_join_closed_form:
  "str_join sep (t # ts) = t @ concat (map (\<lambda>x. sep @ x) ts)"
  by (induction ts arbitrary: t) auto

lemma backend_calls_append:
  "backend_calls (xs @ ys) = backend_calls xs + backend_calls ys"
  by (induction xs rule: backend_calls.induct) auto

lemma assistant_turns_append:
  "assistant_turns (xs @ ys) = assistant_turns xs + assistant_turns ys"
  by (induction xs) auto

text \<open>
  A batch in which every call names a registered tool whose invocation returns text
  contents runs to its end without exception and without a backend call.
\<close>

lemma for_tool_calls_all_ok:
  assumes "\<forall>c \<in> set calls. \<exists>s texts. dict_get (sessions st) (call_name c) = Some s
             \<and> call_tool env s (call_name c) (call_arguments c) = Inr (map TextContent texts)"
  shows "\<exists>m1 t1. for_tool_calls env st (Some body) calls messages h
                    = (Inr (m1, calls \<noteq> [] \<or> h), t1)
                 \<and> backend_calls t1 = 0
                 \<and> assistant_turns m1 = assistant_turns messages + length calls"
  using assms
proof (induction calls arbitrary: messages h)
  case Nil
  then show ?case by simp
next
  case (Cons c cs)
  then obtain s texts where
    l: "dict_get (sessions st) (call_name c) = Some s"
    and r: "call_tool env s (call_name c) (call_arguments c) = Inr (map TextContent texts)"
    by auto
  let ?m2 = "(messages @ [\<lparr>role = ''assistant'', content = body\<rparr>])
               @ [\<lparr>role = ''tool'', content = concat texts\<rparr>]"
  from Cons.prems have "\<forall>c \<in> set cs. \<exists>s texts. dict_get (sessions st) (call_name c) = Some s
             \<and> call_tool env s (call_name c) (call_arguments c) = Inr (map TextContent texts)"
    by simp
  from Cons.IH [OF this, of ?m2 True] obtain m1 t1 where
    f: "for_tool_calls env st (Some body) cs ?m2 True = (Inr (m1, True), t1)"
    and b: "backend_calls t1 = 0"
    and a: "assistant_turns m1 = assistant_turns ?m2 + length cs"
    by auto
  have "for_tool_calls env st (Some body) (c # cs) messages h =
          (Inr (m1, True),
           [Print (ToolCallLine c), CallTool s (call_name c) (call_arguments c),
            Print (ToolOutput texts)] @ t1)"
    using l r f by (simp add: join_assistant_content_def tool_texts_text)
  moreover have "assistant_turns m1 = assistant_turns messages + length (c # cs)"
    using a by (simp add: assistant_turns_append)
  ultimately show ?case using b by simp
qed

text \<open>After such a batch the loop goes on with the calls that follow it.\<close>

lemma for_tool_calls_append:
  assumes "\<forall>c \<in> set pre. \<exists>s texts. dict_get (sessions st) (call_name c) = Some s
             \<and> call_tool env s (call_name c) (call_arguments c) = Inr (map TextContent texts)"
    and "for_tool_calls env st (Some body) pre messages h = (Inr (m1, h1), t1)"
    and "for_tool_calls env st (Some body) later m1 h1 = (r, t2)"
  shows "for_tool_calls env st (Some body) (pre @ later) messages h = (r, t1 @ t2)"
  using assms
proof (induction pre arbitrary: messages h t1)
  case Nil
  then show ?case by simp
next
  case (Cons c cs)
  then obtain s texts where
    l: "dict_get (sessions st) (call_name c) = Some s"
    and res: "call_tool env s (call_name c) (call_arguments c) = Inr (map TextContent texts)"
    by auto
  let ?m2 = "(messages @ [\<lparr>role = ''assistant'', content = body\<rparr>])
               @ [\<lparr>role = ''tool'', content = concat texts\<rparr>]"
  let ?ev = "[Print (ToolCallLine c), CallTool s (call_name c) (call_arguments c),
              Print (ToolOutput texts)]"
  from Cons.prems(2) l res obtain t1' where
    f: "for_tool_calls env st (Some body) cs ?m2 True = (Inr (m1, h1), t1')"
    and t: "t1 = ?ev @ t1'"
    by (auto simp: join_assistant_content_def tool_texts_text split: prod.splits)
  from Cons.prems(1) have "\<forall>c \<in> set cs. \<exists>s texts. dict_get (sessions st) (call_name c) = Some s
             \<and> call_tool env s (call_name c) (call_arguments c) = Inr (map TextContent texts)"
    by simp
  from Cons.IH [OF this f Cons.prems(3)]
  have "for_tool_calls env st (Some body) (cs @ later) ?m2 True = (r, t1' @ t2)" .
  then show ?case
    using l res t by (simp add: join_assistant_content_def tool_texts_text)
qed

lemma for_tool_calls_assistant_count:
  "for_tool_calls env st (Some body) calls messages h = (Inr (messages', h'), tr) \<Longrightarrow>
   assistant_turns messages' = assistant_turns messages + length (reached_calls st calls)
   \<and> (\<exists>ext. messages' = messages @ ext
          \<and> (\<forall>m \<in> set ext. role m = ''assistant'' \<longrightarrow> content m = body))"
proof (induction calls arbitrary: messages h tr)
  case Nil
  then show ?case by simp
next
  case (Cons tool rest)
  show ?case
  proof (cases "dict_get (sessions st) (call_name tool)")
    case None
    with Cons.prems show ?thesis
      by (auto simp: join_assistant_content_def assistant_turns_append)
  next
    case (Some session)
    from Cons.prems Some obtain result tool_output tr' where
      rec: "for_tool_calls env st (Some body) rest
             ((messages @ [\<lparr>role = ''assistant'', content = body\<rparr>])
               @ [\<lparr>role = ''tool'', content = concat tool_output\<rparr>]) True
           = (Inr (messages', h'), tr')"
      by (auto simp: join_assistant_content_def Let_def split: sum.splits prod.splits)
    from Cons.IH [OF rec] obtain ext where
      n: "assistant_turns messages' =
            assistant_turns ((messages @ [\<lparr>role = ''assistant'', content = body\<rparr>])
               @ [\<lparr>role = ''tool'', content = concat tool_output\<rparr>])
            + length (reached_calls st rest)"
      and e: "messages' = ((messages @ [\<lparr>role = ''assistant'', content = body\<rparr>])
               @ [\<lparr>role = ''tool'', content = concat tool_output\<rparr>]) @ ext"
      and b: "\<forall>m \<in> set ext. role m = ''assistant'' \<longrightarrow> content m = body"
      by auto
    let ?ext = "[\<lparr>role = ''assistant'', content = body\<rparr>,
                 \<lparr>role = ''tool'', content = concat tool_output\<rparr>] @ ext"
    have "messages' = messages @ ?ext" using e by simp
    moreover have "\<forall>m \<in> set ?ext. role m = ''assistant'' \<longrightarrow> content m = body"
      using b by auto
    moreover have "assistant_turns messages' =
        assistant_turns messages + length (reached_calls st (tool # rest))"
      using n Some by (simp add: assistant_turns_append)
    ultimately show ?thesis by blast
  qed
qed

lemma reached_calls_all_found:
  "\<forall>c \<in> set calls. dict_get (sessions st) (call_name c) \<noteq> None \<Longrightarrow>
   reached_calls st calls = calls"
  by (induction calls) auto

lemma reached_calls_first_missing:
  "\<forall>c \<in> set pre. dict_get (sessions st) (call_name c) \<noteq> None \<Longrightarrow>
   dict_get (sessions st) (call_name c0) = None \<Longrightarrow>
   reached_calls st (pre @ c0 # rest) = pre @ [c0]"
  by (induction pre) auto



text \<open>
  C5, as stated, fails. The turn with role \<open>assistant\<close> is appended inside the \<open>for\<close>
  loop over the tool calls (line 114): a response without tool calls leaves the transcript
  without any assistant turn, and a response with two tool calls adds two.
\<close>

theorem assistant_turn_once_counterexample:
  "model_turn quiet_env init_bot [user_turn ''hello''] =
     (Inr ([user_turn ''hello''], False),
      [Chat [] [user_turn ''hello''], Print (AssistantText (Some []))])
   \<and> assistant_turns [user_turn ''hello''] = 0
   \<and> fst (model_turn (calls_env [add_call, add_call]) add_bot [user_turn ''add twice'']) =
       Inr ([user_turn ''add twice'',
             \<lparr>role = ''assistant'', content = []\<rparr>, \<lparr>role = ''tool'', content = ''5''\<rparr>,
             \<lparr>role = ''assistant'', content = []\<rparr>, \<lparr>role = ''tool'', content = ''5''\<rparr>],
            True)"
  by (simp add: model_turn_def quiet_env_def init_bot_def user_turn_def calls_env_def
      add_bot_def add_call_def join_assistant_content_def)

text \<open>
  C5, amended. A pass whose response has no tool calls appends nothing to the transcript.
  A pass whose content is a string appends one turn with role \<open>assistant\<close>, holding that
  content, for each tool call it reaches: when every call of the response names a
  registered tool whose invocation returns text contents, the pass ends normally and the
  transcript has gained as many assistant turns as the response has tool calls; in
  general a pass that ends without exception has gained one for each call up to and
  including the first whose tool is not found.
\<close>

theorem assistant_turn_per_reached_call:
  "(chat env (available_tools st) messages = Inr response
      \<and> (message_tool_calls response = None \<or> message_tool_calls response = Some [])
    \<longrightarrow> fst (model_turn env st messages) = Inr (messages, False))
   \<and> (chat env (available_tools st) messages = Inr response
      \<and> message_content response = Some body
      \<and> message_tool_calls response = Some calls
      \<and> (\<forall>c \<in> set calls. \<exists>s texts. dict_get (sessions st) (call_name c) = Some s
            \<and> call_tool env s (call_name c) (call_arguments c) = Inr (map TextContent texts))
    \<longrightarrow> (\<exists>messages' tr1. model_turn env st messages = (Inr (messages', calls \<noteq> []), tr1)
           \<and> assistant_turns messages' = assistant_turns messages + length calls))
   \<and> (chat env (available_tools st) messages = Inr response
      \<and> message_content response = Some body
      \<and> message_tool_calls response = Some calls
      \<and> model_turn env st messages = (Inr (messages', h), tr1)
    \<longrightarrow> assistant_turns messages'
          = assistant_turns messages + length (reached_calls st calls)
        \<and> (\<exists>ext. messages' = messages @ ext
              \<and> (\<forall>m \<in> set ext. role m = ''assistant'' \<longrightarrow> content m = body)))
   \<and> ((\<forall>c \<in> set calls. dict_get (sessions st) (call_name c) \<noteq> None)
    \<longrightarrow> reached_calls st calls = calls)
   \<and> ((\<forall>c \<in> set pre. dict_get (sessions st) (call_name c) \<noteq> None)
      \<and> dict_get (sessions st) (call_name c0) = None
    \<longrightarrow> reached_calls st (pre @ c0 # rest) = pre @ [c0])"
proof (intro conjI impI)
  assume "chat env (available_tools st) messages = Inr response
      \<and> (message_tool_calls response = None \<or> message_tool_calls response = Some [])"
  then show "fst (model_turn env st messages) = Inr (messages, False)"
    using model_turn_no_calls [of env st messages response] by auto
next
  assume a: "chat env (available_tools st) messages = Inr response
      \<and> message_content response = Some body
      \<and> message_tool_calls response = Some calls
      \<and> (\<forall>c \<in> set calls. \<exists>s texts. dict_get (sessions st) (call_name c) = Some s
            \<and> call_tool env s (call_name c) (call_arguments c) = Inr (map TextContent texts))"
  then have "\<forall>c \<in> set calls. \<exists>s texts. dict_get (sessions st) (call_name c) = Some s
            \<and> call_tool env s (call_name c) (call_arguments c) = Inr (map TextContent texts)"
    by blast
  from for_tool_calls_all_ok [OF this, of body messages False] obtain m1 t1 where
    f: "for_tool_calls env st (Some body) calls messages False = (Inr (m1, calls \<noteq> []), t1)"
    and n: "assistant_turns m1 = assistant_turns messages + length calls"
    by auto
  from a f have "model_turn env st messages =
      (Inr (m1, calls \<noteq> []),
       [Chat (available_tools st) messages, Print (AssistantText (Some body))] @ t1)"
    by (simp add: model_turn_def)
  with n show "\<exists>messages' tr1. model_turn env st messages = (Inr (messages', calls \<noteq> []), tr1)
           \<and> assistant_turns messages' = assistant_turns messages + length calls"
    by blast
next
  assume a: "chat env (available_tools st) messages = Inr response
      \<and> message_content response = Some body
      \<and> message_tool_calls response = Some calls
      \<and> model_turn env st messages = (Inr (messages', h), tr1)"
  then obtain tr0 where
    f: "for_tool_calls env st (Some body) calls messages False = (Inr (messages', h), tr0)"
    by (auto simp: model_turn_def split: prod.splits)
  from for_tool_calls_assistant_count [OF f]
  show "assistant_turns messages'
          = assistant_turns messages + length (reached_calls st calls)"
    by blast
  from for_tool_calls_assistant_count [OF f]
  show "\<exists>ext. messages' = messages @ ext
              \<and> (\<forall>m \<in> set ext. role m = ''assistant'' \<longrightarrow> content m = body)"
    by blast
next
  assume "\<forall>c \<in> set calls. dict_get (sessions st) (call_name c) \<noteq> None"
  then show "reached_calls st calls = calls" by (rule reached_calls_all_found)
next
  assume "(\<forall>c \<in> set pre. dict_get (sessions st) (call_name c) \<noteq> None)
      \<and> dict_get (sessions st) (call_name c0) = None"
  then show "reached_calls st (pre @ c0 # rest) = pre @ [c0]"
    using reached_calls_first_missing by blast
qed

theorem assistant_turn_per_reached_call_witness:
  "chat quiet_env (available_tools init_bot) [user_turn ''hello'']
     = Inr \<lparr>message_content = Some [], message_tool_calls = None\<rparr>
   \<and> fst (model_turn quiet_env init_bot [user_turn ''hello'']) =
       Inr ([user_turn ''hello''], False)
   \<and> chat (calls_env [add_call, add_call]) (available_tools add_bot) [user_turn ''add twice'']
     = Inr \<lparr>message_content = Some [], message_tool_calls = Some [add_call, add_call]\<rparr>
   \<and> (\<exists>messages' tr1.
         model_turn (calls_env [add_call, add_call]) add_bot [user_turn ''add twice'']
           = (Inr (messages', True), tr1)
         \<and> assistant_turns messages' = 2)
   \<and> chat (calls_env [add_call, missing_call, add_call]) (available_tools add_bot)
        [user_turn ''add then multiply'']
     = Inr \<lparr>message_content = Some [],
             message_tool_calls = Some [add_call, missing_call, add_call]\<rparr>
   \<and> model_turn (calls_env [add_call, missing_call, add_call]) add_bot
        [user_turn ''add then multiply'']
     = (Inr ([user_turn ''add then multiply'',
              \<lparr>role = ''assistant'', content = []\<rparr>, \<lparr>role = ''tool'', content = ''5''\<rparr>,
              \<lparr>role = ''assistant'', content = []\<rparr>], True),
        [Chat [] [user_turn ''add then multiply''], Print (AssistantText (Some [])),
         Print (ToolCallLine add_call), CallTool 1 ''add'' [(''a'', ''2''), (''b'', ''3'')],
         Print (ToolOutput [''5'']),
         Print (ToolCallLine missing_call), Print (ToolNotFound ''multiply'')])
   \<and> reached_calls add_bot [add_call, missing_call, add_call] = [add_call, missing_call]
   \<and> assistant_turns [user_turn ''add then multiply'',
              \<lparr>role = ''assistant'', content = []\<rparr>, \<lparr>role = ''tool'', content = ''5''\<rparr>,
              \<lparr>role = ''assistant'', content = []\<rparr>]
       = assistant_turns [user_turn ''add then multiply''] + 2"
proof -
  let ?env2 = "calls_env [add_call, add_call]"
  let ?r2 = "\<lparr>message_content = Some [], message_tool_calls = Some [add_call, add_call]\<rparr>"
  let ?env3 = "calls_env [add_call, missing_call, add_call]"
  let ?r3 = "\<lparr>message_content = Some [],
              message_tool_calls = Some [add_call, missing_call, add_call]\<rparr>"
  let ?m3 = "[user_turn ''add then multiply'',
              \<lparr>role = ''assistant'', content = []\<rparr>, \<lparr>role = ''tool'', content = ''5''\<rparr>,
              \<lparr>role = ''assistant'', content = []\<rparr>]"
  let ?t3 = "[Chat [] [user_turn ''add then multiply''], Print (AssistantText (Some [])),
         Print (ToolCallLine add_call), CallTool 1 ''add'' [(''a'', ''2''), (''b'', ''3'')],
         Print (ToolOutput [''5'']),
         Print (ToolCallLine missing_call), Print (ToolNotFound ''multiply'')]"
  have c0: "chat quiet_env (available_tools init_bot) [user_turn ''hello'']
              = Inr \<lparr>message_content = Some [], message_tool_calls = None\<rparr>"
    by (simp add: quiet_env_def)
  have c2: "chat ?env2 (available_tools add_bot) [user_turn ''add twice''] = Inr ?r2"
    by (simp add: calls_env_def quiet_env_def)
  have c3: "chat ?env3 (available_tools add_bot) [user_turn ''add then multiply''] = Inr ?r3"
    by (simp add: calls_env_def quiet_env_def)
  have ok2: "\<forall>c \<in> set [add_call, add_call].
               \<exists>s texts. dict_get (sessions add_bot) (call_name c) = Some s
                 \<and> call_tool ?env2 s (call_name c) (call_arguments c)
                     = Inr (map TextContent texts)"
  proof -
    have "\<exists>s texts. dict_get (sessions add_bot) (call_name add_call) = Some s
            \<and> call_tool ?env2 s (call_name add_call) (call_arguments add_call)
                = Inr (map TextContent texts)"
      by (rule exI [of _ 1], rule exI [of _ "[''5'']"])
        (simp add: add_bot_def add_call_def calls_env_def quiet_env_def)
    then show ?thesis by simp
  qed
  have t3: "model_turn ?env3 add_bot [user_turn ''add then multiply''] = (Inr (?m3, True), ?t3)"
    by (simp add: model_turn_def calls_env_def quiet_env_def add_bot_def add_call_def
        missing_call_def join_assistant_content_def user_turn_def)
  have zero: "fst (model_turn quiet_env init_bot [user_turn ''hello'']) =
       Inr ([user_turn ''hello''], False)"
    using assistant_turn_per_reached_call
      [of quiet_env init_bot "[user_turn ''hello'']"
        "\<lparr>message_content = Some [], message_tool_calls = None\<rparr>" "[]" "[]" "[]" True "[]"
        "[]" add_call "[]"]
      c0 by simp
  have two: "\<exists>messages' tr1.
         model_turn ?env2 add_bot [user_turn ''add twice''] = (Inr (messages', True), tr1)
         \<and> assistant_turns messages' = 2"
    using assistant_turn_per_reached_call
      [of ?env2 add_bot "[user_turn ''add twice'']" ?r2 "[]" "[add_call, add_call]"
        "[]" True "[]" "[]" add_call "[]"]
      c2 ok2 by (simp add: user_turn_def numeral_2_eq_2)
  have d1: "\<forall>c \<in> set [add_call]. dict_get (sessions add_bot) (call_name c) \<noteq> None"
    by (simp add: add_bot_def add_call_def)
  have d2: "dict_get (sessions add_bot) (call_name missing_call) = None"
    by (simp add: add_bot_def missing_call_def)
  have inst: "(chat ?env3 (available_tools add_bot) [user_turn ''add then multiply''] = Inr ?r3
      \<and> message_content ?r3 = Some []
      \<and> message_tool_calls ?r3 = Some [add_call, missing_call, add_call]
      \<and> model_turn ?env3 add_bot [user_turn ''add then multiply''] = (Inr (?m3, True), ?t3)
    \<longrightarrow> assistant_turns ?m3
          = assistant_turns [user_turn ''add then multiply'']
            + length (reached_calls add_bot [add_call, missing_call, add_call]))
    \<and> ((\<forall>c \<in> set [add_call]. dict_get (sessions add_bot) (call_name c) \<noteq> None)
      \<and> dict_get (sessions add_bot) (call_name missing_call) = None
    \<longrightarrow> reached_calls add_bot ([add_call] @ missing_call # [add_call])
          = [add_call] @ [missing_call])"
    using assistant_turn_per_reached_call
      [of ?env3 add_bot "[user_turn ''add then multiply'']" ?r3 "[]"
        "[add_call, missing_call, add_call]" ?m3 True ?t3 "[add_call]" missing_call
        "[add_call]"]
    by blast
  have rc: "reached_calls add_bot [add_call, missing_call, add_call] = [add_call, missing_call]"
    using inst d1 d2 by simp
  have three: "assistant_turns ?m3 = assistant_turns [user_turn ''add then multiply''] + 2"
    using inst c3 t3 rc by simp
  show ?thesis
    using c0 zero c2 two c3 t3 rc three by blast
qed

text \<open>
  C6, as stated, fails. \<open>process_query\<close> has no \<open>try\<close>: the exception of a tool
  invocation is not caught in the dispatch loop. It ends \<open>process_query\<close> as a whole,
  after the one backend invocation, and reaches the caller.
\<close>

theorem tool_error_caught_in_loop_counterexample:
  "process_query raising_env add_bot ''add 2 and 3'' =
     Some (Inl (Raised ''tool crashed''),
           [Chat [] [user_turn ''add 2 and 3''], Print (AssistantText (Some [])),
            Print (ToolCallLine add_call),
            CallTool 1 ''add'' [(''a'', ''2''), (''b'', ''3'')]])"
proof -
  have "model_turn raising_env add_bot [\<lparr>role = ''user'', content = ''add 2 and 3''\<rparr>] =
     (Inl (Raised ''tool crashed''),
      [Chat [] [user_turn ''add 2 and 3''], Print (AssistantText (Some [])),
       Print (ToolCallLine add_call),
       CallTool 1 ''add'' [(''a'', ''2''), (''b'', ''3'')]])"
    by (simp add: model_turn_def raising_env_def calls_env_def quiet_env_def add_bot_def
        add_call_def join_assistant_content_def user_turn_def)
  from while_true_raise [OF this, of "[]"] show ?thesis
    by (simp add: process_query_def)
qed

text \<open>
  C6, amended. An exception raised by the invocation of a resolved tool, at any position
  of a batch whose earlier calls went through, is not handled in \<open>process_query\<close>: it
  ends the dispatch loop at once, with no further tool call and no further backend
  invocation, and reaches the caller. The handler of \<open>chat_loop\<close> prints it and the loop
  goes on with the next input line, so the process goes on. A tool that is not found
  raises nothing: that pass ends normally with \<open>has_tool_use\<close> set, and the loop goes on
  with a backend invocation on the transcript of that pass.
\<close>

theorem tool_error_leaves_process_query:
  "(chat env (available_tools st) messages = Inr response
      \<and> message_content response = Some body
      \<and> message_tool_calls response = Some (pre @ A # rest)
      \<and> (\<forall>c \<in> set pre. \<exists>s texts. dict_get (sessions st) (call_name c) = Some s
            \<and> call_tool env s (call_name c) (call_arguments c) = Inr (map TextContent texts))
      \<and> dict_get (sessions st) (call_name A) = Some session
      \<and> call_tool env session (call_name A) (call_arguments A) = Inl e
    \<longrightarrow> (\<exists>m1 t1.
           for_tool_calls env st (Some body) pre messages False = (Inr (m1, pre \<noteq> []), t1)
           \<and> backend_calls t1 = 0
           \<and> while_true env st messages tr =
               Some (Inl e,
                     tr @ [Chat (available_tools st) messages,
                           Print (AssistantText (Some body))] @ t1 @
                          [Print (ToolCallLine A),
                           CallTool session (call_name A) (call_arguments A)])))
   \<and> (strip line \<noteq> [] \<and> lower (strip line) \<noteq> ''quit''
      \<and> process_query env st (strip line) = Some (Inl e, tr0)
    \<longrightarrow> chat_lines env st (line # later) =
          (case chat_lines env st later of
             None \<Rightarrow> None
           | Some (status, tr') \<Rightarrow> Some (status, tr0 @ [Print (ChatLoopError e)] @ tr')))
   \<and> (chat env (available_tools st) messages = Inr response
      \<and> message_content response = Some body
      \<and> message_tool_calls response = Some (pre @ A # rest)
      \<and> (\<forall>c \<in> set pre. \<exists>s texts. dict_get (sessions st) (call_name c) = Some s
            \<and> call_tool env s (call_name c) (call_arguments c) = Inr (map TextContent texts))
      \<and> dict_get (sessions st) (call_name A) = None
    \<longrightarrow> (\<exists>m1 t1.
           for_tool_calls env st (Some body) pre messages False = (Inr (m1, pre \<noteq> []), t1)
           \<and> backend_calls t1 = 0
           \<and> model_turn env st messages =
               (Inr (m1 @ [\<lparr>role = ''assistant'', content = body\<rparr>], True),
                [Chat (available_tools st) messages, Print (AssistantText (Some body))] @ t1 @
                [Print (ToolCallLine A), Print (ToolNotFound (call_name A))])
           \<and> while_true env st messages tr =
               while_true env st (m1 @ [\<lparr>role = ''assistant'', content = body\<rparr>])
                 (tr @ [Chat (available_tools st) messages,
                        Print (AssistantText (Some body))] @ t1 @
                       [Print (ToolCallLine A), Print (ToolNotFound (call_name A))])
           \<and> (\<exists>r tr2. model_turn env st (m1 @ [\<lparr>role = ''assistant'', content = body\<rparr>]) =
                 (r, Chat (available_tools st)
                       (m1 @ [\<lparr>role = ''assistant'', content = body\<rparr>]) # tr2))))"
proof (intro conjI impI)
  assume a: "chat env (available_tools st) messages = Inr response
      \<and> message_content response = Some body
      \<and> message_tool_calls response = Some (pre @ A # rest)
      \<and> (\<forall>c \<in> set pre. \<exists>s texts. dict_get (sessions st) (call_name c) = Some s
            \<and> call_tool env s (call_name c) (call_arguments c) = Inr (map TextContent texts))
      \<and> dict_get (sessions st) (call_name A) = Some session
      \<and> call_tool env session (call_name A) (call_arguments A) = Inl e"
  then have ok: "\<forall>c \<in> set pre. \<exists>s texts. dict_get (sessions st) (call_name c) = Some s
            \<and> call_tool env s (call_name c) (call_arguments c) = Inr (map TextContent texts)"
    by blast
  from for_tool_calls_all_ok [OF ok, of body messages False] obtain m1 t1 where
    f: "for_tool_calls env st (Some body) pre messages False = (Inr (m1, pre \<noteq> []), t1)"
    and b: "backend_calls t1 = 0"
    by auto
  have g: "for_tool_calls env st (Some body) (A # rest) m1 (pre \<noteq> []) =
             (Inl e, [Print (ToolCallLine A),
                      CallTool session (call_name A) (call_arguments A)])"
    using a by (simp add: join_assistant_content_def)
  have "for_tool_calls env st (Some body) (pre @ A # rest) messages False =
          (Inl e, t1 @ [Print (ToolCallLine A),
                        CallTool session (call_name A) (call_arguments A)])"
    by (rule for_tool_calls_append [OF ok f g])
  with a have "model_turn env st messages =
      (Inl e, [Chat (available_tools st) messages, Print (AssistantText (Some body))] @ t1 @
              [Print (ToolCallLine A), CallTool session (call_name A) (call_arguments A)])"
    by (simp add: model_turn_def)
  from while_true_raise [OF this, of tr] f b
  show "\<exists>m1 t1.
           for_tool_calls env st (Some body) pre messages False = (Inr (m1, pre \<noteq> []), t1)
           \<and> backend_calls t1 = 0
           \<and> while_true env st messages tr =
               Some (Inl e,
                     tr @ [Chat (available_tools st) messages,
                           Print (AssistantText (Some body))] @ t1 @
                          [Print (ToolCallLine A),
                           CallTool session (call_name A) (call_arguments A)])"
    by blast
next
  assume "strip line \<noteq> [] \<and> lower (strip line) \<noteq> ''quit''
      \<and> process_query env st (strip line) = Some (Inl e, tr0)"
  then show "chat_lines env st (line # later) =
          (case chat_lines env st later of
             None \<Rightarrow> None
           | Some (status, tr') \<Rightarrow> Some (status, tr0 @ [Print (ChatLoopError e)] @ tr'))"
    by (simp add: Let_def split: option.splits)
next
  assume a: "chat env (available_tools st) messages = Inr response
      \<and> message_content response = Some body
      \<and> message_tool_calls response = Some (pre @ A # rest)
      \<and> (\<forall>c \<in> set pre. \<exists>s texts. dict_get (sessions st) (call_name c) = Some s
            \<and> call_tool env s (call_name c) (call_arguments c) = Inr (map TextContent texts))
      \<and> dict_get (sessions st) (call_name A) = None"
  then have ok: "\<forall>c \<in> set pre. \<exists>s texts. dict_get (sessions st) (call_name c) = Some s
            \<and> call_tool env s (call_name c) (call_arguments c) = Inr (map TextContent texts)"
    by blast
  from for_tool_calls_all_ok [OF ok, of body messages False] obtain m1 t1 where
    f: "for_tool_calls env st (Some body) pre messages False = (Inr (m1, pre \<noteq> []), t1)"
    and b: "backend_calls t1 = 0"
    by auto
  let ?m = "m1 @ [\<lparr>role = ''assistant'', content = body\<rparr>]"
  let ?t = "[Chat (available_tools st) messages, Print (AssistantText (Some body))] @ t1 @
            [Print (ToolCallLine A), Print (ToolNotFound (call_name A))]"
  have g: "for_tool_calls env st (Some body) (A # rest) m1 (pre \<noteq> []) =
             (Inr (?m, True), [Print (ToolCallLine A), Print (ToolNotFound (call_name A))])"
    using a by (simp add: join_assistant_content_def)
  have "for_tool_calls env st (Some body) (pre @ A # rest) messages False =
          (Inr (?m, True), t1 @ [Print (ToolCallLine A), Print (ToolNotFound (call_name A))])"
    by (rule for_tool_calls_append [OF ok f g])
  with a have mt: "model_turn env st messages = (Inr (?m, True), ?t)"
    by (simp add: model_turn_def)
  have w: "while_true env st messages tr = while_true env st ?m (tr @ ?t)"
    by (rule while_true_continue [OF mt])
  have n: "\<exists>r tr2. model_turn env st ?m = (r, Chat (available_tools st) ?m # tr2)"
    by (rule model_turn_starts_with_chat)
  from f b mt w n
  show "\<exists>m1 t1.
           for_tool_calls env st (Some body) pre messages False = (Inr (m1, pre \<noteq> []), t1)
           \<and> backend_calls t1 = 0
           \<and> model_turn env st messages =
               (Inr (m1 @ [\<lparr>role = ''assistant'', content = body\<rparr>], True),
                [Chat (available_tools st) messages, Print (AssistantText (Some body))] @ t1 @
                [Print (ToolCallLine A), Print (ToolNotFound (call_name A))])
           \<and> while_true env st messages tr =
               while_true env st (m1 @ [\<lparr>role = ''assistant'', content = body\<rparr>])
                 (tr @ [Chat (available_tools st) messages,
                        Print (AssistantText (Some body))] @ t1 @
                       [Print (ToolCallLine A), Print (ToolNotFound (call_name A))])
           \<and> (\<exists>r tr2. model_turn env st (m1 @ [\<lparr>role = ''assistant'', content = body\<rparr>]) =
                 (r, Chat (available_tools st)
                       (m1 @ [\<lparr>role = ''assistant'', content = body\<rparr>]) # tr2))"
    by blast
qed

theorem tool_error_leaves_process_query_witness:
  "chat boom_env (available_tools boom_bot) [user_turn ''add then boom'']
     = Inr \<lparr>message_content = Some [], message_tool_calls = Some [add_call, boom_call]\<rparr>
   \<and> dict_get (sessions boom_bot) (call_name add_call) = Some 1
   \<and> call_tool boom_env 1 (call_name add_call) (call_arguments add_call)
       = Inr (map TextContent [''5''])
   \<and> dict_get (sessions boom_bot) (call_name boom_call) = Some 2
   \<and> call_tool boom_env 2 (call_name boom_call) (call_arguments boom_call)
       = Inl (Raised ''tool crashed'')
   \<and> process_query boom_env boom_bot ''add then boom'' =
       Some (Inl (Raised ''tool crashed''),
             [Chat [] [user_turn ''add then boom''], Print (AssistantText (Some [])),
              Print (ToolCallLine add_call),
              CallTool 1 ''add'' [(''a'', ''2''), (''b'', ''3'')], Print (ToolOutput [''5'']),
              Print (ToolCallLine boom_call), CallTool 2 ''boom'' []])
   \<and> strip '' add then boom '' = ''add then boom''
   \<and> chat_lines boom_env boom_bot ['' add then boom '', ''QUIT''] =
       Some (Quit,
             [Chat [] [user_turn ''add then boom''], Print (AssistantText (Some [])),
              Print (ToolCallLine add_call),
              CallTool 1 ''add'' [(''a'', ''2''), (''b'', ''3'')], Print (ToolOutput [''5'']),
              Print (ToolCallLine boom_call), CallTool 2 ''boom'' [],
              Print (ChatLoopError (Raised ''tool crashed''))])
   \<and> dict_get (sessions add_bot) (call_name missing_call) = None
   \<and> process_query (calls_env [add_call, missing_call, add_call]) add_bot
        ''add then multiply'' =
       Some (Inr [user_turn ''add then multiply'',
                  \<lparr>role = ''assistant'', content = []\<rparr>, \<lparr>role = ''tool'', content = ''5''\<rparr>,
                  \<lparr>role = ''assistant'', content = []\<rparr>],
             [Chat [] [user_turn ''add then multiply''], Print (AssistantText (Some [])),
              Print (ToolCallLine add_call),
              CallTool 1 ''add'' [(''a'', ''2''), (''b'', ''3'')], Print (ToolOutput [''5'']),
              Print (ToolCallLine missing_call), Print (ToolNotFound ''multiply''),
              Chat [] [user_turn ''add then multiply'',
                       \<lparr>role = ''assistant'', content = []\<rparr>,
                       \<lparr>role = ''tool'', content = ''5''\<rparr>,
                       \<lparr>role = ''assistant'', content = []\<rparr>],
              Print (AssistantText (Some ''5''))])"
proof -
  let ?r = "\<lparr>message_content = Some [], message_tool_calls = Some [add_call, boom_call]\<rparr>"
  let ?u = "[user_turn ''add then boom'']"
  let ?m1 = "[user_turn ''add then boom'', \<lparr>role = ''assistant'', content = []\<rparr>,
              \<lparr>role = ''tool'', content = ''5''\<rparr>]"
  let ?t1 = "[Print (ToolCallLine add_call),
              CallTool 1 ''add'' [(''a'', ''2''), (''b'', ''3'')], Print (ToolOutput [''5''])]"
  let ?t = "[Chat [] ?u, Print (AssistantText (Some []))] @ ?t1 @
            [Print (ToolCallLine boom_call), CallTool 2 ''boom'' []]"
  have c: "chat boom_env (available_tools boom_bot) ?u = Inr ?r"
    by (simp add: boom_env_def calls_env_def quiet_env_def)
  have d1: "dict_get (sessions boom_bot) (call_name add_call) = Some 1"
    by (simp add: boom_bot_def add_call_def)
  have r1: "call_tool boom_env 1 (call_name add_call) (call_arguments add_call)
              = Inr (map TextContent [''5''])"
    by (simp add: boom_env_def calls_env_def quiet_env_def add_call_def)
  have d2: "dict_get (sessions boom_bot) (call_name boom_call) = Some 2"
    by (simp add: boom_bot_def boom_call_def)
  have r2: "call_tool boom_env 2 (call_name boom_call) (call_arguments boom_call)
              = Inl (Raised ''tool crashed'')"
    by (simp add: boom_env_def calls_env_def quiet_env_def boom_call_def)
  have ok: "\<forall>c \<in> set [add_call]. \<exists>s texts. dict_get (sessions boom_bot) (call_name c) = Some s
              \<and> call_tool boom_env s (call_name c) (call_arguments c)
                  = Inr (map TextContent texts)"
  proof -
    have "\<exists>s texts. dict_get (sessions boom_bot) (call_name add_call) = Some s
            \<and> call_tool boom_env s (call_name add_call) (call_arguments add_call)
                = Inr (map TextContent texts)"
      by (rule exI [of _ 1], rule exI [of _ "[''5'']"]) 
        (simp add: boom_bot_def add_call_def boom_env_def calls_env_def quiet_env_def)
    then show ?thesis by simp
  qed
  have f: "for_tool_calls boom_env boom_bot (Some []) [add_call] ?u False
             = (Inr (?m1, True), ?t1)"
    by (simp add: boom_env_def calls_env_def quiet_env_def boom_bot_def add_call_def
        join_assistant_content_def)
  have i1: "\<exists>m1 t1.
      for_tool_calls boom_env boom_bot (Some []) [add_call] ?u False
        = (Inr (m1, [add_call] \<noteq> []), t1)
      \<and> backend_calls t1 = 0
      \<and> while_true boom_env boom_bot ?u [] =
          Some (Inl (Raised ''tool crashed''),
                [] @ [Chat (available_tools boom_bot) ?u, Print (AssistantText (Some []))]
                  @ t1 @ [Print (ToolCallLine boom_call),
                          CallTool 2 (call_name boom_call) (call_arguments boom_call)])"
    using tool_error_leaves_process_query
      [of boom_env boom_bot ?u ?r "[]" "[add_call]" boom_call "[]" 2
        "Raised ''tool crashed''" "[]" "[]" "[]" "[]"]
      c ok d2 r2 by simp
  have w: "while_true boom_env boom_bot ?u [] = Some (Inl (Raised ''tool crashed''), ?t)"
    using i1 f by (auto simp: boom_bot_def boom_call_def)
  have s: "strip '' add then boom '' = ''add then boom''"
    by (simp add: strip_def is_space_def)
  have l: "lower ''add then boom'' \<noteq> ''quit''"
    by (simp add: lower_def)
  have q: "chat_lines boom_env boom_bot [''QUIT''] = Some (Quit, [])"
    by (simp add: strip_def is_space_def lower_def lower_char_def)
  have p: "process_query boom_env boom_bot ''add then boom''
             = Some (Inl (Raised ''tool crashed''), ?t)"
    using w by (simp add: process_query_def user_turn_def)
  have cl: "chat_lines boom_env boom_bot ['' add then boom '', ''QUIT''] =
       Some (Quit, ?t @ [Print (ChatLoopError (Raised ''tool crashed''))])"
    using tool_error_leaves_process_query
      [of boom_env boom_bot ?u ?r "[]" "[add_call]" boom_call "[]" 2
        "Raised ''tool crashed''" "[]" "'' add then boom ''" ?t "[''QUIT'']"]
      p s l q
    by simp
  let ?env3 = "calls_env [add_call, missing_call, add_call]"
  let ?r3 = "\<lparr>message_content = Some [],
              message_tool_calls = Some [add_call, missing_call, add_call]\<rparr>"
  let ?u3 = "[user_turn ''add then multiply'']"
  let ?n1 = "[user_turn ''add then multiply'', \<lparr>role = ''assistant'', content = []\<rparr>,
              \<lparr>role = ''tool'', content = ''5''\<rparr>]"
  let ?m3 = "?n1 @ [\<lparr>role = ''assistant'', content = []\<rparr>]"
  let ?t3 = "[Chat [] ?u3, Print (AssistantText (Some []))] @ ?t1 @
             [Print (ToolCallLine missing_call), Print (ToolNotFound ''multiply'')]"
  have c3: "chat ?env3 (available_tools add_bot) ?u3 = Inr ?r3"
    by (simp add: calls_env_def quiet_env_def)
  have e1: "dict_get (sessions add_bot) (call_name add_call) = Some 1"
    by (simp add: add_bot_def add_call_def)
  have e2: "call_tool ?env3 1 (call_name add_call) (call_arguments add_call)
              = Inr (map TextContent [''5''])"
    by (simp add: calls_env_def quiet_env_def)
  have ok3: "\<forall>c \<in> set [add_call]. \<exists>s texts. dict_get (sessions add_bot) (call_name c) = Some s
              \<and> call_tool ?env3 s (call_name c) (call_arguments c)
                  = Inr (map TextContent texts)"
  proof -
    have "\<exists>s texts. dict_get (sessions add_bot) (call_name add_call) = Some s
            \<and> call_tool ?env3 s (call_name add_call) (call_arguments add_call)
                = Inr (map TextContent texts)"
      by (rule exI [of _ 1], rule exI [of _ "[''5'']"]) 
        (simp add: add_bot_def add_call_def calls_env_def quiet_env_def)
    then show ?thesis by simp
  qed
  have d3: "dict_get (sessions add_bot) (call_name missing_call) = None"
    by (simp add: add_bot_def missing_call_def)
  have f3: "for_tool_calls ?env3 add_bot (Some []) [add_call] ?u3 False
             = (Inr (?n1, True), ?t1)"
    by (simp add: calls_env_def quiet_env_def add_bot_def add_call_def
        join_assistant_content_def)
  have h3: "chat ?env3 (available_tools add_bot) ?u3 = Inr ?r3
      \<and> message_content ?r3 = Some []
      \<and> message_tool_calls ?r3 = Some ([add_call] @ missing_call # [add_call])
      \<and> (\<forall>c \<in> set [add_call]. \<exists>s texts. dict_get (sessions add_bot) (call_name c) = Some s
            \<and> call_tool ?env3 s (call_name c) (call_arguments c)
                = Inr (map TextContent texts))
      \<and> dict_get (sessions add_bot) (call_name missing_call) = None"
    using c3 ok3 d3 by simp
  note i3 = tool_error_leaves_process_query
      [of ?env3 add_bot ?u3 ?r3 "[]" "[add_call]" missing_call "[add_call]" 0
        "Raised []" "[]" "[]" "[]" "[]",
       THEN conjunct2, THEN conjunct2, THEN mp, OF h3]
  have w3: "while_true ?env3 add_bot ?u3 [] = while_true ?env3 add_bot ?m3 ?t3"
    using i3 f3
    by (auto simp add: add_bot_def missing_call_def simp del: for_tool_calls.simps)
  have t4: "model_turn ?env3 add_bot ?m3 =
      (Inr (?m3, False), [Chat [] ?m3, Print (AssistantText (Some ''5''))])"
    by (simp add: model_turn_def calls_env_def quiet_env_def add_bot_def)
  have p3: "process_query ?env3 add_bot ''add then multiply'' =
      Some (Inr ?m3, ?t3 @ [Chat [] ?m3, Print (AssistantText (Some ''5''))])"
    using w3 while_true_stop [OF t4, of ?t3] by (simp add: process_query_def user_turn_def)
  show ?thesis
    using c d1 r1 d2 r2 p s cl d3 p3 by simp
qed

section \<open>Prompts as queries\<close>

lemma map_item_text_TextItem: "map (item_text \<circ> TextItem) texts = texts"
  by (induction texts) auto

text \<open>
  C8. The prompt name resolves and the retrieval returns at least one message. The text
  is the content of the first message when that is a plain string, its text field when
  it is one object with a text field, and for a sequence of objects with text fields
  the first field followed by every later field with one space before it (nothing for
  the empty sequence). \<open>execute_prompt\<close> runs \<open>process_query\<close> on exactly this text,
  which is the content of the single user turn the dispatch loop starts from.
\<close>

theorem execute_prompt_feeds_text:
  assumes "dict_get (sessions st) prompt_name = Some session"
    and "get_prompt env session prompt_name args = Inr (Some (first # others))"
    and "first = PlainStr body \<or> first = TextObject body
         \<or> (first = ItemSeq [] \<and> body = [])
         \<or> (\<exists>t ts. first = ItemSeq (map TextItem (t # ts))
               \<and> body = t @ concat (map (\<lambda>x. '' '' @ x) ts))"
  shows "execute_prompt env st prompt_name args =
           (case process_query env st body of
              None \<Rightarrow> None
            | Some (Inl e, tr) \<Rightarrow>
                Some ([GetPrompt session prompt_name args,
                       Print (ExecutingPrompt prompt_name)] @ tr @ [Print (ErrorLine e)])
            | Some (Inr transcript, tr) \<Rightarrow>
                Some ([GetPrompt session prompt_name args,
                       Print (ExecutingPrompt prompt_name)] @ tr))
         \<and> process_query env st body =
             while_true env st [\<lparr>role = ''user'', content = body\<rparr>] []"
proof -
  from assms(3) have "extract_text first = Inr body"
    by (auto simp: map_item_text_TextItem str_join_closed_form)
  with assms(1,2) show ?thesis
    by (simp add: execute_prompt_def process_query_def)
qed

theorem execute_prompt_feeds_text_witness:
  "dict_get (sessions prompt_bot) ''summarize'' = Some 1
   \<and> get_prompt (prompt_env (TextObject ''Summarize X'')) 1 ''summarize'' []
       = Inr (Some [TextObject ''Summarize X''])
   \<and> execute_prompt (prompt_env (TextObject ''Summarize X'')) prompt_bot ''summarize'' [] =
       Some [GetPrompt 1 ''summarize'' [], Print (ExecutingPrompt ''summarize''),
             Chat [] [user_turn ''Summarize X''], Print (AssistantText (Some []))]
   \<and> get_prompt (prompt_env (ItemSeq [TextItem ''Summarize'', TextItem ''X'', TextItem ''now'']))
        1 ''summarize'' []
       = Inr (Some [ItemSeq (map TextItem [''Summarize'', ''X'', ''now''])])
   \<and> execute_prompt (prompt_env (ItemSeq [TextItem ''Summarize'', TextItem ''X'', TextItem ''now'']))
        prompt_bot ''summarize'' [] =
       Some [GetPrompt 1 ''summarize'' [], Print (ExecutingPrompt ''summarize''),
             Chat [] [user_turn ''Summarize X now''], Print (AssistantText (Some []))]
   \<and> get_prompt (prompt_env (PlainStr ''Summarize X'')) 1 ''summarize'' []
       = Inr (Some [PlainStr ''Summarize X''])
   \<and> execute_prompt (prompt_env (PlainStr ''Summarize X'')) prompt_bot ''summarize'' [] =
       Some [GetPrompt 1 ''summarize'' [], Print (ExecutingPrompt ''summarize''),
             Chat [] [user_turn ''Summarize X''], Print (AssistantText (Some []))]"
proof -
  have a: "dict_get (sessions prompt_bot) ''summarize'' = Some 1"
    by (simp add: prompt_bot_def)
  have g: "get_prompt (prompt_env first) 1 ''summarize'' [] = Inr (Some (first # []))"
    for first
    by (simp add: prompt_env_def quiet_env_def)
  have t: "model_turn (prompt_env first) prompt_bot [\<lparr>role = ''user'', content = q\<rparr>] =
      (Inr ([\<lparr>role = ''user'', content = q\<rparr>], False),
       [Chat [] [user_turn q], Print (AssistantText (Some []))])"
    for first q
    by (simp add: model_turn_def prompt_env_def quiet_env_def prompt_bot_def user_turn_def)
  have w: "while_true (prompt_env first) prompt_bot [\<lparr>role = ''user'', content = q\<rparr>] []
      = Some (Inr [\<lparr>role = ''user'', content = q\<rparr>],
              [] @ [Chat [] [user_turn q], Print (AssistantText (Some []))])"
    for first q
    by (rule while_true_stop [OF t])
  have h1: "TextObject ''Summarize X'' = PlainStr ''Summarize X''
         \<or> TextObject ''Summarize X'' = TextObject ''Summarize X''
         \<or> (TextObject ''Summarize X'' = ItemSeq [] \<and> ''Summarize X'' = [])
         \<or> (\<exists>t ts. TextObject ''Summarize X'' = ItemSeq (map TextItem (t # ts))
               \<and> ''Summarize X'' = t @ concat (map (\<lambda>x. '' '' @ x) ts))"
    by simp
  have h2: "ItemSeq [TextItem ''Summarize'', TextItem ''X'', TextItem ''now'']
              = PlainStr ''Summarize X now''
         \<or> ItemSeq [TextItem ''Summarize'', TextItem ''X'', TextItem ''now'']
              = TextObject ''Summarize X now''
         \<or> (ItemSeq [TextItem ''Summarize'', TextItem ''X'', TextItem ''now''] = ItemSeq []
              \<and> ''Summarize X now'' = [])
         \<or> (\<exists>t ts. ItemSeq [TextItem ''Summarize'', TextItem ''X'', TextItem ''now'']
                      = ItemSeq (map TextItem (t # ts))
               \<and> ''Summarize X now'' = t @ concat (map (\<lambda>x. '' '' @ x) ts))"
  proof -
    have "\<exists>t ts. ItemSeq [TextItem ''Summarize'', TextItem ''X'', TextItem ''now'']
                      = ItemSeq (map TextItem (t # ts))
               \<and> ''Summarize X now'' = t @ concat (map (\<lambda>x. '' '' @ x) ts)"
      by (rule exI [of _ "''Summarize''"], rule exI [of _ "[''X'', ''now'']"]) simp
    then show ?thesis
      by - (rule disjI2, rule disjI2, rule disjI2, assumption)
  qed
  have h3: "PlainStr ''Summarize X'' = PlainStr ''Summarize X''
         \<or> PlainStr ''Summarize X'' = TextObject ''Summarize X''
         \<or> (PlainStr ''Summarize X'' = ItemSeq [] \<and> ''Summarize X'' = [])
         \<or> (\<exists>t ts. PlainStr ''Summarize X'' = ItemSeq (map TextItem (t # ts))
               \<and> ''Summarize X'' = t @ concat (map (\<lambda>x. '' '' @ x) ts))"
    by simp
  show ?thesis
    using a g w
      execute_prompt_feeds_text [OF a g h1]
      execute_prompt_feeds_text [OF a g h2]
      execute_prompt_feeds_text [OF a g h3]
    by simp
qed

end
